theory Spec2Isabelle
  imports Main "HOL-Library.Char_ord" "HOL-Library.List_Lexorder"
begin

section \<open>The application store of \<open>src/lib/store.ts\<close>\<close>

subsection \<open>Data model\<close>

text \<open>
  The types of \<open>store.ts\<close>, lines 5 to 64. String-literal unions are datatypes, object
  types are records. The fields of \<open>FolderItem\<close> carry the suffix \<open>_item\<close> because
  \<open>id\<close> and \<open>name\<close> are taken; the optional \<open>url\<close> is an option.
\<close>

datatype PersonaMode = Professional | Playful | Minimal

record Persona =
  mode :: PersonaMode
  colors :: "string list"

record Profile =
  name :: string
  role :: string
  avatarSeed :: string
  verified :: bool
  links :: "string list"

datatype ItemType = Img | Doc | Link

record FolderItem =
  id_item :: string
  name_item :: string
  type_item :: ItemType
  url_item :: "string option"

datatype AiStatus = Idle | Fetching | Ready

datatype Theme = Light | Dark | Brand

record Preferences =
  reduceMotion :: bool
  disableShaders :: bool
  theme :: Theme
  soundEnabled :: bool

text \<open>
  A property of the \<open>formData\<close> object holds a string; the argument of \<open>setFormData\<close> is a
  \<open>Partial<Record<string, string>>\<close>, whose properties may also hold \<open>undefined\<close>. The
  value type has both, so that "no property holds \<open>undefined\<close>" is a statement about the
  code and not about a type. An object is a map from property names to values: a key that
  is absent maps to \<open>None\<close>, a key that is present and holds \<open>undefined\<close> to
  \<open>Some Undefined\<close>.
\<close>

datatype FieldValue = Undefined | Str string

type_synonym FormData = "string \<rightharpoonup> FieldValue"

text \<open>
  The data fields of \<open>Store\<close>. Day numbers are JavaScript numbers in the source; the model
  takes the integers among them.
\<close>

record Store =
  persona :: Persona
  profile :: Profile
  folderItems :: "FolderItem list"
  formData :: FormData
  aiStatus :: AiStatus
  preferences :: Preferences
  completedDays :: "int list"

subsection \<open>Partial objects and the spread operator\<close>

text \<open>
  \<open>Partial<T>\<close>: every property is optional. \<open>None\<close> is a property that the object
  does not have. The spread \<open>{ ...base, ...p }\<close> copies \<open>base\<close> and then overwrites the
  properties that \<open>p\<close> has. A property written out with the value \<open>undefined\<close> is not
  modelled for these three records: the spread would store it, and the types of the
  store's fields have no such value.
\<close>

record PersonaPartial =
  mode_opt :: "PersonaMode option"
  colors_opt :: "string list option"

record ProfilePartial =
  name_opt :: "string option"
  role_opt :: "string option"
  avatarSeed_opt :: "string option"
  verified_opt :: "bool option"
  links_opt :: "string list option"

record PreferencesPartial =
  reduceMotion_opt :: "bool option"
  disableShaders_opt :: "bool option"
  theme_opt :: "Theme option"
  soundEnabled_opt :: "bool option"

record StorePartial =
  persona_opt :: "Persona option"
  profile_opt :: "Profile option"
  folderItems_opt :: "FolderItem list option"
  formData_opt :: "FormData option"
  aiStatus_opt :: "AiStatus option"
  preferences_opt :: "Preferences option"
  completedDays_opt :: "int list option"

definition overwrite :: "'a \<Rightarrow> 'a option \<Rightarrow> 'a" where
  "overwrite old new = (case new of None \<Rightarrow> old | Some v \<Rightarrow> v)"

definition spread_Persona :: "Persona \<Rightarrow> PersonaPartial \<Rightarrow> Persona" where
  "spread_Persona base p =
     \<lparr> mode = overwrite (mode base) (mode_opt p),
       colors = overwrite (colors base) (colors_opt p) \<rparr>"

definition spread_Profile :: "Profile \<Rightarrow> ProfilePartial \<Rightarrow> Profile" where
  "spread_Profile base p =
     \<lparr> name = overwrite (name base) (name_opt p),
       role = overwrite (role base) (role_opt p),
       avatarSeed = overwrite (avatarSeed base) (avatarSeed_opt p),
       verified = overwrite (verified base) (verified_opt p),
       links = overwrite (links base) (links_opt p) \<rparr>"

definition spread_Preferences :: "Preferences \<Rightarrow> PreferencesPartial \<Rightarrow> Preferences" where
  "spread_Preferences base p =
     \<lparr> reduceMotion = overwrite (reduceMotion base) (reduceMotion_opt p),
       disableShaders = overwrite (disableShaders base) (disableShaders_opt p),
       theme = overwrite (theme base) (theme_opt p),
       soundEnabled = overwrite (soundEnabled base) (soundEnabled_opt p) \<rparr>"

subsection \<open>The state setter\<close>

text \<open>
  Every action of the store goes through \<open>set\<close>, which merges a partial state into the
  current one: \<open>set(obj)\<close> with an object, \<open>set((state) => obj)\<close> with a function of the
  current state. \<open>nothing\<close> is the object literal \<open>{}\<close>, to which an action adds the
  properties it writes.
\<close>

definition nothing :: StorePartial where
  "nothing =
     \<lparr> persona_opt = None, profile_opt = None, folderItems_opt = None, formData_opt = None,
       aiStatus_opt = None, preferences_opt = None, completedDays_opt = None \<rparr>"

definition set_obj :: "StorePartial \<Rightarrow> Store \<Rightarrow> Store" where
  "set_obj p state =
     \<lparr> persona = overwrite (persona state) (persona_opt p),
       profile = overwrite (profile state) (profile_opt p),
       folderItems = overwrite (folderItems state) (folderItems_opt p),
       formData = overwrite (formData state) (formData_opt p),
       aiStatus = overwrite (aiStatus state) (aiStatus_opt p),
       preferences = overwrite (preferences state) (preferences_opt p),
       completedDays = overwrite (completedDays state) (completedDays_opt p) \<rparr>"

definition set_fn :: "(Store \<Rightarrow> StorePartial) \<Rightarrow> Store \<Rightarrow> Store" where
  "set_fn f state = set_obj (f state) state"

subsection \<open>The initial state\<close>

text \<open>\<open>initialState\<close>, lines 66 to 88.\<close>

definition initialState :: Store where
  "initialState =
     \<lparr> persona = \<lparr> mode = Professional,
                   colors = [''#7C3AED'', ''#06B6D4'', ''#22C55E'', ''#F59E0B'', ''#EF4444''] \<rparr>,
       profile = \<lparr> name = '''', role = '''', avatarSeed = '''', verified = False, links = [] \<rparr>,
       folderItems = [],
       formData = Map.empty,
       aiStatus = Idle,
       preferences = \<lparr> reduceMotion = False, disableShaders = False, theme = Dark,
                       soundEnabled = False \<rparr>,
       completedDays = [] \<rparr>"

text \<open>\<open>initialState\<close> where it is the argument of \<open>set\<close>: an object with all seven properties.\<close>

definition initialState_obj :: StorePartial where
  "initialState_obj =
     \<lparr> persona_opt = Some (persona initialState),
       profile_opt = Some (profile initialState),
       folderItems_opt = Some (folderItems initialState),
       formData_opt = Some (formData initialState),
       aiStatus_opt = Some (aiStatus initialState),
       preferences_opt = Some (preferences initialState),
       completedDays_opt = Some (completedDays initialState) \<rparr>"

subsection \<open>Built-ins of the language that the actions call\<close>

text \<open>
  \<open>Number.prototype.toString\<close> on an integer: the decimal digits, after a minus sign for a
  negative one. (The exponent notation of numbers from \<open>10^21\<close> on is not modelled.)
\<close>

definition digit_char :: "nat \<Rightarrow> char" where
  "digit_char d = ''0123456789'' ! d"

function digits :: "nat \<Rightarrow> string" where
  "digits n = (if n < 10 then [digit_char n] else digits (n div 10) @ [digit_char (n mod 10)])"
  by pat_completeness auto
termination
  by (relation "measure (\<lambda>n. n)") auto

declare digits.simps [simp del]

definition Number_toString :: "int \<Rightarrow> string" where
  "Number_toString i = (if i < 0 then CHR ''-'' # digits (nat (- i)) else digits (nat i))"

text \<open>
  \<open>Array.prototype.sort()\<close> called without a comparison function: the elements are
  converted to strings and ordered by the code units of these strings; the sort is
  stable. The order on strings is the lexicographic order of \<open>List_Lexorder\<close> over the
  character codes of \<open>Char_ord\<close>; \<open>sort_key\<close> is a stable insertion sort.
\<close>

definition Array_sort :: "int list \<Rightarrow> int list" where
  "Array_sort xs = sort_key Number_toString xs"

text \<open>\<open>Array.prototype.includes\<close> on a list of integers.\<close>

definition Array_includes :: "int list \<Rightarrow> int \<Rightarrow> bool" where
  "Array_includes xs x = (x \<in> set xs)"

text \<open>
  \<open>Object.entries\<close> gives the properties of an object as a list of pairs, and
  \<open>Object.fromEntries\<close> builds an object from such a list, a later pair overwriting an
  earlier one with the same key. The argument of \<open>setFormData\<close> is given by its entries.
\<close>

type_synonym Entries = "(string \<times> FieldValue) list"

definition Object_fromEntries :: "Entries \<Rightarrow> FormData" where
  "Object_fromEntries es = fold (\<lambda>(k, v) obj. obj(k \<mapsto> v)) es Map.empty"

subsection \<open>The actions\<close>

text \<open>The actions of \<open>useStore\<close>, lines 95 to 130, each a call of \<open>set\<close>.\<close>

definition setPersona :: "PersonaPartial \<Rightarrow> Store \<Rightarrow> Store" where
  "setPersona p =
     set_fn (\<lambda>state. nothing\<lparr> persona_opt := Some (spread_Persona (persona state) p) \<rparr>)"

definition setProfile :: "ProfilePartial \<Rightarrow> Store \<Rightarrow> Store" where
  "setProfile p =
     set_fn (\<lambda>state. nothing\<lparr> profile_opt := Some (spread_Profile (profile state) p) \<rparr>)"

definition addFolderItem :: "FolderItem \<Rightarrow> Store \<Rightarrow> Store" where
  "addFolderItem item =
     set_fn (\<lambda>state. nothing\<lparr> folderItems_opt :=
       Some (filter (\<lambda>i. id_item i \<noteq> id_item item) (folderItems state) @ [item]) \<rparr>)"

definition removeFolderItem :: "string \<Rightarrow> Store \<Rightarrow> Store" where
  "removeFolderItem ident =
     set_fn (\<lambda>state. nothing\<lparr> folderItems_opt :=
       Some (filter (\<lambda>i. id_item i \<noteq> ident) (folderItems state)) \<rparr>)"

definition setFormData :: "Entries \<Rightarrow> Store \<Rightarrow> Store" where
  "setFormData data =
     set_fn (\<lambda>state. nothing\<lparr> formData_opt :=
       Some (formData state ++ Object_fromEntries (filter (\<lambda>(_, v). v \<noteq> Undefined) data)) \<rparr>)"

definition setAiStatus :: "AiStatus \<Rightarrow> Store \<Rightarrow> Store" where
  "setAiStatus status = set_obj (nothing\<lparr> aiStatus_opt := Some status \<rparr>)"

definition setPreferences :: "PreferencesPartial \<Rightarrow> Store \<Rightarrow> Store" where
  "setPreferences prefs =
     set_fn (\<lambda>state. nothing\<lparr> preferences_opt :=
       Some (spread_Preferences (preferences state) prefs) \<rparr>)"

definition markDayComplete :: "int \<Rightarrow> Store \<Rightarrow> Store" where
  "markDayComplete day =
     set_fn (\<lambda>state. nothing\<lparr> completedDays_opt :=
       Some (if Array_includes (completedDays state) day
             then completedDays state
             else Array_sort (completedDays state @ [day])) \<rparr>)"

definition reset :: "Store \<Rightarrow> Store" where
  "reset = set_obj initialState_obj"

subsection \<open>Sequences of actions\<close>

text \<open>
  A call of one of the nine actions, with its argument; \<open>run\<close> performs a list of calls
  from left to right. The states reachable from \<open>initialState\<close> are the states
  \<open>run acts initialState\<close>.
\<close>

datatype Action =
    SetPersona PersonaPartial
  | SetProfile ProfilePartial
  | AddFolderItem FolderItem
  | RemoveFolderItem string
  | SetFormData Entries
  | SetAiStatus AiStatus
  | SetPreferences PreferencesPartial
  | MarkDayComplete int
  | Reset

fun step :: "Action \<Rightarrow> Store \<Rightarrow> Store" where
  "step (SetPersona p) = setPersona p"
| "step (SetProfile p) = setProfile p"
| "step (AddFolderItem item) = addFolderItem item"
| "step (RemoveFolderItem ident) = removeFolderItem ident"
| "step (SetFormData data) = setFormData data"
| "step (SetAiStatus status) = setAiStatus status"
| "step (SetPreferences prefs) = setPreferences prefs"
| "step (MarkDayComplete day) = markDayComplete day"
| "step Reset = reset"

definition run :: "Action list \<Rightarrow> Store \<Rightarrow> Store" where
  "run acts state = fold step acts state"

subsection \<open>Persisted subset and selectors\<close>

text \<open>\<open>partialize\<close>, lines 134 to 141: the object handed to the persist middleware.\<close>

record Persisted =
  persona_saved :: Persona
  profile_saved :: Profile
  folderItems_saved :: "FolderItem list"
  formData_saved :: FormData
  preferences_saved :: Preferences
  completedDays_saved :: "int list"

definition partialize :: "Store \<Rightarrow> Persisted" where
  "partialize state =
     \<lparr> persona_saved = persona state,
       profile_saved = profile state,
       folderItems_saved = folderItems state,
       formData_saved = formData state,
       preferences_saved = preferences state,
       completedDays_saved = completedDays state \<rparr>"

text \<open>
  The day selectors, lines 153 to 160: the function that each hook passes to \<open>useStore\<close>.
  All eight have the body \<open>state.completedDays.includes(n)\<close> with a literal \<open>n\<close>;
  \<open>isDayComplete\<close> is this body with \<open>n\<close> as a parameter.
\<close>

definition isDayComplete :: "int \<Rightarrow> Store \<Rightarrow> bool" where
  "isDayComplete n state = Array_includes (completedDays state) n"

definition useIsDay1Complete :: "Store \<Rightarrow> bool" where
  "useIsDay1Complete state = Array_includes (completedDays state) 1"

definition useIsDay2Complete :: "Store \<Rightarrow> bool" where
  "useIsDay2Complete state = Array_includes (completedDays state) 2"

definition useIsDay3Complete :: "Store \<Rightarrow> bool" where
  "useIsDay3Complete state = Array_includes (completedDays state) 3"

definition useIsDay4Complete :: "Store \<Rightarrow> bool" where
  "useIsDay4Complete state = Array_includes (completedDays state) 4"

definition useIsDay5Complete :: "Store \<Rightarrow> bool" where
  "useIsDay5Complete state = Array_includes (completedDays state) 5"

definition useIsDay6Complete :: "Store \<Rightarrow> bool" where
  "useIsDay6Complete state = Array_includes (completedDays state) 6"

definition useIsDay7Complete :: "Store \<Rightarrow> bool" where
  "useIsDay7Complete state = Array_includes (completedDays state) 7"

definition useIsDay8Complete :: "Store \<Rightarrow> bool" where
  "useIsDay8Complete state = Array_includes (completedDays state) 8"

subsection \<open>Example values\<close>

definition item_X :: FolderItem where
  "item_X = \<lparr> id_item = ''a'', name_item = ''X'', type_item = Doc, url_item = None \<rparr>"

definition item_Y :: FolderItem where
  "item_Y = \<lparr> id_item = ''a'', name_item = ''Y'', type_item = Doc, url_item = None \<rparr>"

definition item_B :: FolderItem where
  "item_B = \<lparr> id_item = ''b'', name_item = ''B'', type_item = Img, url_item = Some ''/b.png'' \<rparr>"

definition example_calls :: "Action list" where
  "example_calls =
     [MarkDayComplete 3, Reset, MarkDayComplete 3, MarkDayComplete 1, SetAiStatus Ready,
      MarkDayComplete 3]"

definition example_entries :: Entries where
  "example_entries = [(''foo'', Str ''bar''), (''baz'', Undefined)]"

definition only_mode :: PersonaPartial where
  "only_mode = \<lparr> mode_opt = Some Playful, colors_opt = None \<rparr>"

definition only_role :: ProfilePartial where
  "only_role =
     \<lparr> name_opt = None, role_opt = Some ''Engineer'', avatarSeed_opt = None,
       verified_opt = None, links_opt = None \<rparr>"

definition only_theme :: PreferencesPartial where
  "only_theme =
     \<lparr> reduceMotion_opt = None, disableShaders_opt = None, theme_opt = Some Light,
       soundEnabled_opt = None \<rparr>"

definition only_colors :: PersonaPartial where
  "only_colors = \<lparr> mode_opt = None, colors_opt = Some [''#FFFFFF''] \<rparr>"

definition all_but_role :: ProfilePartial where
  "all_but_role =
     \<lparr> name_opt = Some ''Grace'', role_opt = None, avatarSeed_opt = Some ''g7'',
       verified_opt = Some False, links_opt = Some [] \<rparr>"

definition all_but_theme :: PreferencesPartial where
  "all_but_theme =
     \<lparr> reduceMotion_opt = Some False, disableShaders_opt = Some False, theme_opt = None,
       soundEnabled_opt = Some False \<rparr>"

text \<open>A state in which no field has its initial value.\<close>

definition example_state :: Store where
  "example_state =
     \<lparr> persona = \<lparr> mode = Minimal, colors = [''#000000''] \<rparr>,
       profile = \<lparr> name = ''Ada'', role = ''Designer'', avatarSeed = ''a1'', verified = True,
                   links = [''https://example.org''] \<rparr>,
       folderItems = [item_B],
       formData = [''qux'' \<mapsto> Str ''kept'', ''foo'' \<mapsto> Str ''old'', ''baz'' \<mapsto> Str ''stays''],
       aiStatus = Ready,
       preferences = \<lparr> reduceMotion = True, disableShaders = True, theme = Brand,
                       soundEnabled = True \<rparr>,
       completedDays = [3] \<rparr>"

section \<open>What each action writes\<close>

lemmas set_defs = set_fn_def set_obj_def nothing_def overwrite_def

lemma completedDays_markDayComplete:
  "completedDays (markDayComplete day s) =
     (if day \<in> set (completedDays s) then completedDays s
      else Array_sort (completedDays s @ [day]))"
  by (simp add: markDayComplete_def set_defs Array_includes_def)

lemma completedDays_reset: "completedDays (reset s) = []"
  by (simp add: reset_def set_defs initialState_obj_def initialState_def)

lemma completedDays_other:
  "completedDays (setPersona p s) = completedDays s"
  "completedDays (setProfile q s) = completedDays s"
  "completedDays (addFolderItem item s) = completedDays s"
  "completedDays (removeFolderItem ident s) = completedDays s"
  "completedDays (setFormData data s) = completedDays s"
  "completedDays (setAiStatus status s) = completedDays s"
  "completedDays (setPreferences prefs s) = completedDays s"
  by (simp_all add: setPersona_def setProfile_def addFolderItem_def removeFolderItem_def
      setFormData_def setAiStatus_def setPreferences_def set_defs)

lemma set_Array_sort: "set (Array_sort xs) = set xs"
  by (simp add: Array_sort_def)

lemma distinct_Array_sort: "distinct (Array_sort xs) = distinct xs"
  by (simp add: Array_sort_def)

lemma folderItems_addFolderItem:
  "folderItems (addFolderItem item s) =
     filter (\<lambda>i. id_item i \<noteq> id_item item) (folderItems s) @ [item]"
  by (simp add: addFolderItem_def set_defs)

lemma formData_other:
  "formData (setPersona p s) = formData s"
  "formData (setProfile q s) = formData s"
  "formData (setPreferences prefs s) = formData s"
  by (simp_all add: setPersona_def setProfile_def setPreferences_def set_defs)

lemma setPersona_frame: "setPersona p s = s\<lparr> persona := spread_Persona (persona s) p \<rparr>"
  by (simp add: setPersona_def set_defs)

lemma setProfile_frame: "setProfile q s = s\<lparr> profile := spread_Profile (profile s) q \<rparr>"
  by (simp add: setProfile_def set_defs)

lemma setPreferences_frame:
  "setPreferences prefs s = s\<lparr> preferences := spread_Preferences (preferences s) prefs \<rparr>"
  by (simp add: setPreferences_def set_defs)

lemma setFormData_frame:
  "setFormData data s = s\<lparr> formData := formData (setFormData data s) \<rparr>"
  by (simp add: setFormData_def set_defs)

lemma reset_initialState: "reset s = initialState"
  by (simp add: reset_def set_defs initialState_obj_def)

section \<open>Folder items\<close>

text \<open>
  Claim C1, as the code has it. \<open>addFolderItem(item)\<close> removes every item with the id of
  \<open>item\<close> and appends \<open>item\<close> at the end of the list: afterwards \<open>item\<close> is the last
  element and the only one with its id, and the items with another id are the ones from
  before, in their order. Adding \<open>{id: "a", name: "X"}\<close> and then \<open>{id: "a", name: "Y"}\<close>
  leaves one item with id \<open>a\<close>, the second.
\<close>

theorem addFolderItem_replaces_at_end:
  "last (folderItems (addFolderItem item s)) = item
   \<and> filter (\<lambda>i. id_item i = id_item item) (folderItems (addFolderItem item s)) = [item]
   \<and> filter (\<lambda>i. id_item i \<noteq> id_item item) (folderItems (addFolderItem item s))
       = filter (\<lambda>i. id_item i \<noteq> id_item item) (folderItems s)
   \<and> filter (\<lambda>i. id_item i = ''a'')
         (folderItems (addFolderItem item_Y (addFolderItem item_X s))) = [item_Y]"
  by (simp add: folderItems_addFolderItem item_X_def item_Y_def)

text \<open>
  The new item is not placed at the front: added to a folder that holds \<open>item_B\<close>, the
  item \<open>item_Y\<close> comes after it.
\<close>

theorem addFolderItem_front_counterexample:
  "folderItems (addFolderItem item_Y (addFolderItem item_B initialState)) = [item_B, item_Y]
   \<and> hd (folderItems (addFolderItem item_Y (addFolderItem item_B initialState))) \<noteq> item_Y"
  by (simp add: folderItems_addFolderItem item_B_def item_Y_def initialState_def)

section \<open>Completed days\<close>

subsection \<open>Calls of \<open>markDayComplete\<close> alone\<close>

lemma markDayComplete_present: "day \<in> set (completedDays s) \<Longrightarrow> markDayComplete day s = s"
  by (simp add: markDayComplete_def set_defs Array_includes_def)

lemma markDayComplete_idempotent:
  "markDayComplete day (markDayComplete day s) = markDayComplete day s"
  by (rule markDayComplete_present) (simp add: completedDays_markDayComplete set_Array_sort)

lemma fold_markDayComplete_set:
  "set (completedDays (fold markDayComplete days s)) = set (completedDays s) \<union> set days"
  by (induction days arbitrary: s)
     (auto simp add: completedDays_markDayComplete set_Array_sort)

lemma fold_markDayComplete_distinct:
  "distinct (completedDays s) \<Longrightarrow> distinct (completedDays (fold markDayComplete days s))"
  by (induction days arbitrary: s)
     (simp_all add: completedDays_markDayComplete distinct_Array_sort)

text \<open>The list is always in the order of the decimal strings of its members.\<close>

lemma fold_markDayComplete_sorted_keys:
  "sorted (map Number_toString (completedDays s)) \<Longrightarrow>
     sorted (map Number_toString (completedDays (fold markDayComplete days s)))"
  by (induction days arbitrary: s)
     (simp_all add: completedDays_markDayComplete Array_sort_def)

text \<open>On the numbers with one digit, the order of the strings is the order of the numbers.\<close>

lemma Number_toString_digit:
  "0 \<le> a \<Longrightarrow> a \<le> 9 \<Longrightarrow> Number_toString a = [digit_char (nat a)]"
  by (simp add: Number_toString_def digits.simps)

lemma digit_char_mono:
  assumes "a < 10" "b < 10" "digit_char a \<le> digit_char b"
  shows "a \<le> b"
proof -
  have a: "a \<in> {0, 1, 2, 3, 4, 5, 6, 7, 8, 9}" using assms(1) by auto
  have b: "b \<in> {0, 1, 2, 3, 4, 5, 6, 7, 8, 9}" using assms(2) by auto
  from a b assms(3) show ?thesis
    by (auto simp add: digit_char_def less_eq_char_def)
qed

lemma Number_toString_mono_digit:
  assumes "0 \<le> a" "a \<le> 9" "0 \<le> b" "b \<le> 9" "Number_toString a \<le> Number_toString b"
  shows "a \<le> b"
proof -
  have "digit_char (nat a) \<le> digit_char (nat b)"
    using assms by (auto simp add: Number_toString_digit)
  then have "nat a \<le> nat b"
    using assms by (intro digit_char_mono) auto
  then show ?thesis using assms by simp
qed

lemma single_digit_days_sorted:
  assumes "\<forall>d \<in> set days. 0 \<le> d \<and> d \<le> 9"
  shows "sorted (completedDays (fold markDayComplete days initialState))"
proof -
  let ?xs = "completedDays (fold markDayComplete days initialState)"
  have "sorted (map Number_toString ?xs)"
    by (rule fold_markDayComplete_sorted_keys) (simp add: initialState_def)
  then have "sorted_wrt (\<lambda>x y. Number_toString x \<le> Number_toString y) ?xs"
    by (simp add: sorted_map)
  moreover have "set ?xs = set days"
    by (simp add: fold_markDayComplete_set initialState_def)
  ultimately show ?thesis
    using assms by (auto intro: Number_toString_mono_digit elim!: sorted_wrt_mono_rel [rotated])
qed

text \<open>
  Claim C2 says that after any sequence of \<open>markDayComplete(n)\<close> calls from the empty set
  the list holds the distinct values passed, in ascending order. The code sorts with
  \<open>sort()\<close> and no comparison function, which orders numbers by their decimal strings:
  after \<open>markDayComplete(10)\<close> and \<open>markDayComplete(9)\<close> the list is \<open>[10, 9]\<close>, which
  holds the two values passed and is not ascending.
\<close>

theorem markDayComplete_sort_failing_input:
  "completedDays (fold markDayComplete [10, 9] initialState) = [10, 9]
   \<and> set (completedDays (fold markDayComplete [10, 9] initialState)) = set [10, 9]
   \<and> \<not> sorted (completedDays (fold markDayComplete [10, 9] initialState))"
  by (simp add: completedDays_markDayComplete initialState_def Array_sort_def
      Number_toString_def digits.simps digit_char_def)

subsection \<open>Any sequence of actions\<close>

lemma step_distinct: "distinct (completedDays s) \<Longrightarrow> distinct (completedDays (step a s))"
  by (cases a) (simp_all add: completedDays_other completedDays_reset
      completedDays_markDayComplete distinct_Array_sort)

lemma step_members:
  "d \<in> set (completedDays (step a s)) \<Longrightarrow> d \<in> set (completedDays s) \<or> a = MarkDayComplete d"
  by (cases a) (auto simp add: completedDays_other completedDays_reset
      completedDays_markDayComplete set_Array_sort split: if_splits)

lemma fold_step_distinct:
  "distinct (completedDays s) \<Longrightarrow> distinct (completedDays (fold step acts s))"
  by (induction acts arbitrary: s) (simp_all add: step_distinct)

lemma fold_step_members:
  "d \<in> set (completedDays (fold step acts s)) \<Longrightarrow>
     d \<in> set (completedDays s) \<or> MarkDayComplete d \<in> set acts"
proof (induction acts arbitrary: s)
  case Nil
  then show ?case by simp
next
  case (Cons a acts)
  from Cons.prems have "d \<in> set (completedDays (fold step acts (step a s)))" by simp
  then have "d \<in> set (completedDays (step a s)) \<or> MarkDayComplete d \<in> set acts"
    by (rule Cons.IH)
  then show ?case using step_members [of d a s] by auto
qed

lemma run_distinct: "distinct (completedDays (run acts initialState))"
  unfolding run_def by (rule fold_step_distinct) (simp add: initialState_def)

lemma run_members:
  "d \<in> set (completedDays (run acts initialState)) \<Longrightarrow> MarkDayComplete d \<in> set acts"
  using fold_step_members [of d acts initialState] by (simp add: run_def initialState_def)

lemma completedDays_example_calls: "completedDays (run example_calls initialState) = [1, 3]"
  by (simp add: example_calls_def run_def completedDays_markDayComplete completedDays_other
      completedDays_reset Array_sort_def Number_toString_def digits.simps digit_char_def)

lemma example_calls_in_range:
  "\<forall>d. MarkDayComplete d \<in> set example_calls \<longrightarrow> 1 \<le> d \<and> d \<le> 8"
  by (simp add: example_calls_def)

text \<open>
  Claim C3, as the code has it. In every state reached from the initial state by a
  sequence of actions, \<open>completedDays\<close> has no duplicates and each member is a value that
  was passed to \<open>markDayComplete\<close>. The store checks no range: the members lie within
  1 to 8 when every value passed to \<open>markDayComplete\<close> does.
\<close>

theorem completedDays_distinct_and_marked:
  "distinct (completedDays (run acts initialState))
   \<and> (\<forall>d \<in> set (completedDays (run acts initialState)). MarkDayComplete d \<in> set acts)
   \<and> ((\<forall>d. MarkDayComplete d \<in> set acts \<longrightarrow> 1 \<le> d \<and> d \<le> 8) \<longrightarrow>
        (\<forall>d \<in> set (completedDays (run acts initialState)). 1 \<le> d \<and> d \<le> 8))"
  using run_distinct run_members by blast

text \<open>
  The example sequence marks days 3 and 1 only, some of them twice and around a reset; it
  ends with the list \<open>[1, 3]\<close>.
\<close>

theorem completedDays_distinct_and_marked_witness:
  "completedDays (run example_calls initialState) = [1, 3]
   \<and> distinct (completedDays (run example_calls initialState))
   \<and> MarkDayComplete 1 \<in> set example_calls
   \<and> MarkDayComplete 3 \<in> set example_calls"
proof -
  note t = completedDays_distinct_and_marked [of example_calls]
  from t have "distinct (completedDays (run example_calls initialState))"
    by blast
  moreover from t
  have "\<forall>d \<in> set (completedDays (run example_calls initialState)).
          MarkDayComplete d \<in> set example_calls"
    by blast
  moreover from t example_calls_in_range
  have "\<forall>d \<in> set (completedDays (run example_calls initialState)). 1 \<le> d \<and> d \<le> 8"
    by blast
  ultimately show ?thesis
    by (simp add: completedDays_example_calls)
qed

text \<open>A day outside 1 to 8 is stored like any other.\<close>

theorem completedDays_range_counterexample:
  "completedDays (run [MarkDayComplete 9] initialState) = [9]
   \<and> 9 \<in> set (completedDays (run [MarkDayComplete 9] initialState))
   \<and> \<not> (9::int) \<le> 8"
  by (simp add: run_def completedDays_markDayComplete initialState_def Array_sort_def)

section \<open>Day selectors\<close>

text \<open>
  Claim C4, as the code has it. \<open>isDayComplete n\<close> is the membership of \<open>n\<close> in
  \<open>completedDays\<close>, a total function of the state, and each of the eight selectors is
  \<open>isDayComplete\<close> at its day. For \<open>n\<close> outside 1 to 8 it is false in every state reached
  by a sequence of actions that passes only days within 1 to 8 to \<open>markDayComplete\<close>.
\<close>

theorem isDayComplete_membership:
  "isDayComplete n s = (n \<in> set (completedDays s))
   \<and> ((\<forall>d. MarkDayComplete d \<in> set acts \<longrightarrow> 1 \<le> d \<and> d \<le> 8) \<longrightarrow> n < 1 \<or> 8 < n \<longrightarrow>
        \<not> isDayComplete n (run acts initialState))
   \<and> useIsDay1Complete s = isDayComplete 1 s \<and> useIsDay2Complete s = isDayComplete 2 s
   \<and> useIsDay3Complete s = isDayComplete 3 s \<and> useIsDay4Complete s = isDayComplete 4 s
   \<and> useIsDay5Complete s = isDayComplete 5 s \<and> useIsDay6Complete s = isDayComplete 6 s
   \<and> useIsDay7Complete s = isDayComplete 7 s \<and> useIsDay8Complete s = isDayComplete 8 s"
proof -
  have "\<not> isDayComplete n (run acts initialState)"
    if "\<forall>d. MarkDayComplete d \<in> set acts \<longrightarrow> 1 \<le> d \<and> d \<le> 8" and "n < 1 \<or> 8 < n"
  proof
    assume "isDayComplete n (run acts initialState)"
    then have "MarkDayComplete n \<in> set acts"
      by (simp add: isDayComplete_def Array_includes_def run_members)
    with that show False by fastforce
  qed
  then show ?thesis
    by (simp add: isDayComplete_def Array_includes_def useIsDay1Complete_def
        useIsDay2Complete_def useIsDay3Complete_def useIsDay4Complete_def useIsDay5Complete_def
        useIsDay6Complete_def useIsDay7Complete_def useIsDay8Complete_def)
qed

text \<open>After the example sequence, days 9 and 0 are not complete and day 3 is.\<close>

theorem isDayComplete_membership_witness:
  "\<not> isDayComplete 9 (run example_calls initialState)
   \<and> \<not> isDayComplete 0 (run example_calls initialState)
   \<and> isDayComplete 3 (run example_calls initialState)"
proof -
  note h = example_calls_in_range
  have "\<not> isDayComplete 9 (run example_calls initialState)"
    using isDayComplete_membership [of 9 initialState example_calls] h by simp
  moreover have "\<not> isDayComplete 0 (run example_calls initialState)"
    using isDayComplete_membership [of 0 initialState example_calls] h by simp
  moreover have "isDayComplete 3 (run example_calls initialState)"
    using isDayComplete_membership [of 3 "run example_calls initialState" example_calls]
    by (simp add: completedDays_example_calls)
  ultimately show ?thesis by simp
qed

text \<open>Once \<open>markDayComplete(9)\<close> has been called, day 9 is complete.\<close>

theorem isDayComplete_out_of_range_counterexample:
  "isDayComplete 9 (markDayComplete 9 initialState) \<and> \<not> (1 \<le> (9::int) \<and> (9::int) \<le> 8)"
  by (simp add: isDayComplete_def Array_includes_def completedDays_markDayComplete
      initialState_def set_Array_sort)

section \<open>Form data\<close>

lemma fold_entries:
  "fold (\<lambda>(k, v) obj. obj(k \<mapsto> v)) es m = m ++ map_of (rev es)"
proof (induction es arbitrary: m)
  case Nil
  then show ?case by simp
next
  case (Cons e es)
  obtain k v where e: "e = (k, v)" by (cases e)
  have "fold (\<lambda>(k, v) obj. obj(k \<mapsto> v)) (e # es) m
          = fold (\<lambda>(k, v) obj. obj(k \<mapsto> v)) es (m(k \<mapsto> v))"
    by (simp add: e)
  also have "\<dots> = m(k \<mapsto> v) ++ map_of (rev es)"
    by (rule Cons.IH)
  also have "\<dots> = m ++ map_of (rev (e # es))"
    by (simp add: e map_of_append)
  finally show ?case .
qed

lemma Object_fromEntries_map_of: "Object_fromEntries es = map_of (rev es)"
  by (simp add: Object_fromEntries_def fold_entries)

lemma formData_setFormData:
  "formData (setFormData data s) =
     formData s ++ map_of (rev (filter (\<lambda>(_, v). v \<noteq> Undefined) data))"
  by (simp add: setFormData_def set_defs Object_fromEntries_map_of)

lemma map_of_defined_entries:
  "map_of (rev (filter (\<lambda>(_, v). v \<noteq> Undefined) data)) k = Some w \<Longrightarrow>
     w \<noteq> Undefined \<and> (k, w) \<in> set data"
  by (auto dest!: map_of_SomeD)

lemma setFormData_unnamed_key:
  assumes "k \<notin> fst ` set data"
  shows "formData (setFormData data s) k = formData s k"
proof -
  have "k \<notin> fst ` set (rev (filter (\<lambda>(_, v). v \<noteq> Undefined) data))"
    using assms by auto
  then have "map_of (rev (filter (\<lambda>(_, v). v \<noteq> Undefined) data)) k = None"
    by (simp add: map_of_eq_None_iff)
  then show ?thesis
    by (simp add: formData_setFormData map_add_def)
qed

lemma setFormData_example:
  "formData (setFormData example_entries initialState) = [''foo'' \<mapsto> Str ''bar'']"
  by (simp add: formData_setFormData example_entries_def initialState_def)

text \<open>
  Claim C5. \<open>setFormData\<close> (the spec's \<open>setFormField\<close>) merges the entries of its argument
  into the draft and drops those whose value is \<open>undefined\<close>: it never makes a key hold
  \<open>undefined\<close>; a key that the argument gives no string keeps what it had; and a key that
  the argument gives a string (the keys of an object being distinct) holds that string
  afterwards.
\<close>

theorem setFormData_drops_undefined:
  "(formData s k \<noteq> Some Undefined \<longrightarrow> formData (setFormData data s) k \<noteq> Some Undefined)
   \<and> ((\<forall>v. (k, Str v) \<notin> set data) \<longrightarrow> formData (setFormData data s) k = formData s k)
   \<and> (distinct (map fst data) \<longrightarrow> (k, Str v) \<in> set data \<longrightarrow>
        formData (setFormData data s) k = Some (Str v))"
proof (intro conjI impI)
  assume "formData s k \<noteq> Some Undefined"
  then show "formData (setFormData data s) k \<noteq> Some Undefined"
    by (auto simp add: formData_setFormData map_add_def split: option.splits
        dest: map_of_defined_entries)
next
  assume none: "\<forall>v. (k, Str v) \<notin> set data"
  have "map_of (rev (filter (\<lambda>(_, v). v \<noteq> Undefined) data)) k = None"
  proof (cases "map_of (rev (filter (\<lambda>(_, v). v \<noteq> Undefined) data)) k")
    case None
    then show ?thesis .
  next
    case (Some w)
    from map_of_defined_entries [OF Some] none show ?thesis by (cases w) auto
  qed
  then show "formData (setFormData data s) k = formData s k"
    by (simp add: formData_setFormData map_add_def)
next
  assume d: "distinct (map fst data)" and m: "(k, Str v) \<in> set data"
  let ?es = "rev (filter (\<lambda>(_, v). v \<noteq> Undefined) data)"
  have "distinct (map fst ?es)"
    using d by (simp add: rev_map [symmetric] distinct_map_filter)
  moreover have "(k, Str v) \<in> set ?es" using m by simp
  ultimately have "map_of ?es k = Some (Str v)" by (rule map_of_is_SomeI)
  then show "formData (setFormData data s) k = Some (Str v)"
    by (simp add: formData_setFormData map_add_def)
qed

text \<open>
  \<open>setFormData({foo: "bar", baz: undefined})\<close> on the empty draft: \<open>foo\<close> holds \<open>bar\<close> and
  \<open>baz\<close> is not a key of the draft.
\<close>

theorem setFormData_drops_undefined_witness:
  "formData (setFormData example_entries initialState) ''foo'' = Some (Str ''bar'')
   \<and> formData (setFormData example_entries initialState) ''baz'' = None
   \<and> dom (formData (setFormData example_entries initialState)) = {''foo''}"
proof -
  have "formData (setFormData example_entries initialState) ''foo'' = Some (Str ''bar'')"
    using setFormData_drops_undefined [of initialState "''foo''" example_entries "''bar''"]
    by (simp add: example_entries_def)
  moreover have "formData (setFormData example_entries initialState) ''baz'' = None"
    using setFormData_drops_undefined [of initialState "''baz''" example_entries]
    by (simp add: example_entries_def initialState_def)
  moreover have "dom (formData (setFormData example_entries initialState)) = {''foo''}"
    by (simp add: setFormData_example)
  ultimately show ?thesis by simp
qed

section \<open>Reset\<close>

text \<open>
  Claim C6. \<open>reset()\<close> is one call of \<open>set\<close> with \<open>initialState\<close>: from every state it
  gives the initial state, whatever actions came before, and a second \<open>reset()\<close> changes
  nothing. The six persisted entities have the default values of \<open>initialState\<close>.
\<close>

theorem reset_restores_defaults:
  "reset s = initialState
   \<and> reset (reset s) = reset s
   \<and> reset (run acts s) = reset s
   \<and> persona (reset s) =
       \<lparr> mode = Professional,
         colors = [''#7C3AED'', ''#06B6D4'', ''#22C55E'', ''#F59E0B'', ''#EF4444''] \<rparr>
   \<and> profile (reset s) =
       \<lparr> name = '''', role = '''', avatarSeed = '''', verified = False, links = [] \<rparr>
   \<and> folderItems (reset s) = []
   \<and> formData (reset s) = Map.empty
   \<and> preferences (reset s) =
       \<lparr> reduceMotion = False, disableShaders = False, theme = Dark, soundEnabled = False \<rparr>
   \<and> completedDays (reset s) = []"
  unfolding reset_initialState by (simp add: initialState_def)

text \<open>
  Claim C10. \<open>reset()\<close> also sets the field \<open>aiStatus\<close>, which is not persisted, to
  \<open>idle\<close>.
\<close>

theorem reset_aiStatus_idle: "aiStatus (reset s) = Idle"
  by (simp add: reset_def set_defs initialState_obj_def initialState_def)

section \<open>Partial merges\<close>

lemma setFormData_no_string_key:
  assumes "\<forall>v. (k, Str v) \<notin> set data"
  shows "formData (setFormData data s) k = formData s k"
proof -
  have "map_of (rev (filter (\<lambda>(_, v). v \<noteq> Undefined) data)) k = None"
  proof (cases "map_of (rev (filter (\<lambda>(_, v). v \<noteq> Undefined) data)) k")
    case None
    then show ?thesis .
  next
    case (Some w)
    from map_of_defined_entries [OF Some] assms show ?thesis by (cases w) auto
  qed
  then show ?thesis
    by (simp add: formData_setFormData map_add_def)
qed

lemma setFormData_string_key:
  assumes "distinct (map fst data)" and "(k, Str v) \<in> set data"
  shows "formData (setFormData data s) k = Some (Str v)"
proof -
  let ?es = "rev (filter (\<lambda>(_, v). v \<noteq> Undefined) data)"
  have "distinct (map fst ?es)"
    using assms(1) by (simp add: rev_map [symmetric] distinct_map_filter)
  moreover have "(k, Str v) \<in> set ?es"
    using assms(2) by simp
  ultimately have "map_of ?es k = Some (Str v)"
    by (rule map_of_is_SomeI)
  then show ?thesis
    by (simp add: formData_setFormData map_add_def)
qed

lemma persona_setPersona: "persona (setPersona p s) = spread_Persona (persona s) p"
  by (simp add: setPersona_frame)

lemma profile_setProfile: "profile (setProfile q s) = spread_Profile (profile s) q"
  by (simp add: setProfile_frame)

lemma preferences_setPreferences:
  "preferences (setPreferences prefs s) = spread_Preferences (preferences s) prefs"
  by (simp add: setPreferences_frame)

lemma example_entries_distinct: "distinct (map fst example_entries)"
  by (simp add: example_entries_def)

text \<open>
  Claim C9. Each of \<open>setPersona\<close>, \<open>setProfile\<close>, \<open>setFormData\<close> and \<open>setPreferences\<close>
  (the spec's \<open>setPersonaChoice\<close>, \<open>setProfileDraft\<close>, \<open>setFormField\<close> and
  \<open>setPreferenceFlags\<close>) changes its own record of the store and nothing else, and in
  that record it merges field by field: every field that the update does not name keeps
  its value, and every field that it names takes the value given. For \<open>setFormData\<close> the
  fields are the keys: a key that the update does not have, or gives no string, keeps
  what it held, and a key that the update gives a string (the keys of an object being
  distinct) holds that string.
\<close>

theorem partial_merge_frame:
  "setPersona p s = s\<lparr> persona := persona (setPersona p s) \<rparr>
   \<and> (mode_opt p = None \<longrightarrow> mode (persona (setPersona p s)) = mode (persona s))
   \<and> (colors_opt p = None \<longrightarrow> colors (persona (setPersona p s)) = colors (persona s))
   \<and> (mode_opt p = Some m \<longrightarrow> mode (persona (setPersona p s)) = m)
   \<and> (colors_opt p = Some cs \<longrightarrow> colors (persona (setPersona p s)) = cs)
   \<and> setProfile q s = s\<lparr> profile := profile (setProfile q s) \<rparr>
   \<and> (name_opt q = None \<longrightarrow> name (profile (setProfile q s)) = name (profile s))
   \<and> (role_opt q = None \<longrightarrow> role (profile (setProfile q s)) = role (profile s))
   \<and> (avatarSeed_opt q = None \<longrightarrow>
        avatarSeed (profile (setProfile q s)) = avatarSeed (profile s))
   \<and> (verified_opt q = None \<longrightarrow> verified (profile (setProfile q s)) = verified (profile s))
   \<and> (links_opt q = None \<longrightarrow> links (profile (setProfile q s)) = links (profile s))
   \<and> (name_opt q = Some nm \<longrightarrow> name (profile (setProfile q s)) = nm)
   \<and> (role_opt q = Some r \<longrightarrow> role (profile (setProfile q s)) = r)
   \<and> (avatarSeed_opt q = Some av \<longrightarrow> avatarSeed (profile (setProfile q s)) = av)
   \<and> (verified_opt q = Some ve \<longrightarrow> verified (profile (setProfile q s)) = ve)
   \<and> (links_opt q = Some ls \<longrightarrow> links (profile (setProfile q s)) = ls)
   \<and> setFormData data s = s\<lparr> formData := formData (setFormData data s) \<rparr>
   \<and> (k \<notin> fst ` set data \<longrightarrow> formData (setFormData data s) k = formData s k)
   \<and> ((\<forall>w. (k, Str w) \<notin> set data) \<longrightarrow> formData (setFormData data s) k = formData s k)
   \<and> (distinct (map fst data) \<longrightarrow> (k, Str v) \<in> set data \<longrightarrow>
        formData (setFormData data s) k = Some (Str v))
   \<and> setPreferences prefs s = s\<lparr> preferences := preferences (setPreferences prefs s) \<rparr>
   \<and> (reduceMotion_opt prefs = None \<longrightarrow>
        reduceMotion (preferences (setPreferences prefs s)) = reduceMotion (preferences s))
   \<and> (disableShaders_opt prefs = None \<longrightarrow>
        disableShaders (preferences (setPreferences prefs s)) = disableShaders (preferences s))
   \<and> (theme_opt prefs = None \<longrightarrow>
        theme (preferences (setPreferences prefs s)) = theme (preferences s))
   \<and> (soundEnabled_opt prefs = None \<longrightarrow>
        soundEnabled (preferences (setPreferences prefs s)) = soundEnabled (preferences s))
   \<and> (reduceMotion_opt prefs = Some rm \<longrightarrow>
        reduceMotion (preferences (setPreferences prefs s)) = rm)
   \<and> (disableShaders_opt prefs = Some ds \<longrightarrow>
        disableShaders (preferences (setPreferences prefs s)) = ds)
   \<and> (theme_opt prefs = Some t \<longrightarrow> theme (preferences (setPreferences prefs s)) = t)
   \<and> (soundEnabled_opt prefs = Some se \<longrightarrow>
        soundEnabled (preferences (setPreferences prefs s)) = se)"
proof -
  have "setPersona p s = s\<lparr> persona := persona (setPersona p s) \<rparr>"
    by (simp add: setPersona_frame)
  moreover have "mode_opt p = None \<longrightarrow> mode (persona (setPersona p s)) = mode (persona s)"
    and "colors_opt p = None \<longrightarrow> colors (persona (setPersona p s)) = colors (persona s)"
    and "mode_opt p = Some m \<longrightarrow> mode (persona (setPersona p s)) = m"
    and "colors_opt p = Some cs \<longrightarrow> colors (persona (setPersona p s)) = cs"
    by (simp_all add: persona_setPersona spread_Persona_def overwrite_def)
  moreover have "setProfile q s = s\<lparr> profile := profile (setProfile q s) \<rparr>"
    by (simp add: setProfile_frame)
  moreover have "name_opt q = None \<longrightarrow> name (profile (setProfile q s)) = name (profile s)"
    and "role_opt q = None \<longrightarrow> role (profile (setProfile q s)) = role (profile s)"
    and "avatarSeed_opt q = None \<longrightarrow>
        avatarSeed (profile (setProfile q s)) = avatarSeed (profile s)"
    and "verified_opt q = None \<longrightarrow> verified (profile (setProfile q s)) = verified (profile s)"
    and "links_opt q = None \<longrightarrow> links (profile (setProfile q s)) = links (profile s)"
    by (simp_all add: profile_setProfile spread_Profile_def overwrite_def)
  moreover have "name_opt q = Some nm \<longrightarrow> name (profile (setProfile q s)) = nm"
    and "role_opt q = Some r \<longrightarrow> role (profile (setProfile q s)) = r"
    and "avatarSeed_opt q = Some av \<longrightarrow> avatarSeed (profile (setProfile q s)) = av"
    and "verified_opt q = Some ve \<longrightarrow> verified (profile (setProfile q s)) = ve"
    and "links_opt q = Some ls \<longrightarrow> links (profile (setProfile q s)) = ls"
    by (simp_all add: profile_setProfile spread_Profile_def overwrite_def)
  moreover have "setFormData data s = s\<lparr> formData := formData (setFormData data s) \<rparr>"
    by (rule setFormData_frame)
  moreover have "k \<notin> fst ` set data \<longrightarrow> formData (setFormData data s) k = formData s k"
    by (simp add: setFormData_unnamed_key)
  moreover have "(\<forall>w. (k, Str w) \<notin> set data) \<longrightarrow>
      formData (setFormData data s) k = formData s k"
    by (simp add: setFormData_no_string_key)
  moreover have "distinct (map fst data) \<longrightarrow> (k, Str v) \<in> set data \<longrightarrow>
      formData (setFormData data s) k = Some (Str v)"
    by (simp add: setFormData_string_key)
  moreover have "setPreferences prefs s
      = s\<lparr> preferences := preferences (setPreferences prefs s) \<rparr>"
    by (simp add: setPreferences_frame)
  moreover have "reduceMotion_opt prefs = None \<longrightarrow>
        reduceMotion (preferences (setPreferences prefs s)) = reduceMotion (preferences s)"
    and "disableShaders_opt prefs = None \<longrightarrow>
        disableShaders (preferences (setPreferences prefs s)) = disableShaders (preferences s)"
    and "theme_opt prefs = None \<longrightarrow>
        theme (preferences (setPreferences prefs s)) = theme (preferences s)"
    and "soundEnabled_opt prefs = None \<longrightarrow>
        soundEnabled (preferences (setPreferences prefs s)) = soundEnabled (preferences s)"
    by (simp_all add: preferences_setPreferences spread_Preferences_def overwrite_def)
  moreover have "reduceMotion_opt prefs = Some rm \<longrightarrow>
        reduceMotion (preferences (setPreferences prefs s)) = rm"
    and "disableShaders_opt prefs = Some ds \<longrightarrow>
        disableShaders (preferences (setPreferences prefs s)) = ds"
    and "theme_opt prefs = Some t \<longrightarrow> theme (preferences (setPreferences prefs s)) = t"
    and "soundEnabled_opt prefs = Some se \<longrightarrow>
        soundEnabled (preferences (setPreferences prefs s)) = se"
    by (simp_all add: preferences_setPreferences spread_Preferences_def overwrite_def)
  ultimately show ?thesis
    by (intro conjI)
qed

text \<open>
  From \<open>example_state\<close>, where no field has its initial value. Two updates of each record,
  one naming a single field and one naming all the others, show every named field taking
  its value and every unnamed field keeping the value of \<open>example_state\<close>. The form
  update \<open>{foo: "bar", baz: undefined}\<close> overwrites \<open>foo\<close>, keeps \<open>baz\<close> (given as
  \<open>undefined\<close>) and keeps \<open>qux\<close> (not given). Each action leaves the other entities of
  the store as they were.
\<close>

theorem partial_merge_frame_witness:
  "persona (setPersona only_mode example_state) =
     \<lparr> mode = Playful, colors = [''#000000''] \<rparr>
   \<and> persona (setPersona only_colors example_state) =
     \<lparr> mode = Minimal, colors = [''#FFFFFF''] \<rparr>
   \<and> profile (setProfile only_role example_state) =
     \<lparr> name = ''Ada'', role = ''Engineer'', avatarSeed = ''a1'', verified = True,
       links = [''https://example.org''] \<rparr>
   \<and> profile (setProfile all_but_role example_state) =
     \<lparr> name = ''Grace'', role = ''Designer'', avatarSeed = ''g7'', verified = False,
       links = [] \<rparr>
   \<and> preferences (setPreferences only_theme example_state) =
     \<lparr> reduceMotion = True, disableShaders = True, theme = Light, soundEnabled = True \<rparr>
   \<and> preferences (setPreferences all_but_theme example_state) =
     \<lparr> reduceMotion = False, disableShaders = False, theme = Brand, soundEnabled = False \<rparr>
   \<and> formData (setFormData example_entries example_state) ''foo'' = Some (Str ''bar'')
   \<and> formData (setFormData example_entries example_state) ''baz'' = Some (Str ''stays'')
   \<and> formData (setFormData example_entries example_state) ''qux'' = Some (Str ''kept'')
   \<and> setPersona only_mode example_state =
       example_state\<lparr> persona := \<lparr> mode = Playful, colors = [''#000000''] \<rparr> \<rparr>
   \<and> completedDays (setProfile only_role example_state) = [3]
   \<and> aiStatus (setFormData example_entries example_state) = Ready
   \<and> folderItems (setPreferences only_theme example_state) = [item_B]"
proof -
  note a = partial_merge_frame [where s = example_state and p = only_mode and m = Playful
      and cs = "[]" and q = only_role and nm = "[]" and r = "''Engineer''" and av = "[]"
      and ve = False and ls = "[]" and data = example_entries and k = "''foo''"
      and v = "''bar''" and prefs = only_theme and rm = False and ds = False and t = Light
      and se = False]
  note b = partial_merge_frame [where s = example_state and p = only_colors
      and m = Professional and cs = "[''#FFFFFF'']" and q = all_but_role
      and nm = "''Grace''" and r = "[]" and av = "''g7''" and ve = False and ls = "[]"
      and data = example_entries and k = "''baz''" and v = "[]" and prefs = all_but_theme
      and rm = False and ds = False and t = Light and se = False]
  note c = partial_merge_frame [where s = example_state and p = only_mode and m = Playful
      and cs = "[]" and q = only_role and nm = "[]" and r = "''Engineer''" and av = "[]"
      and ve = False and ls = "[]" and data = example_entries and k = "''qux''"
      and v = "[]" and prefs = only_theme and rm = False and ds = False and t = Light
      and se = False]
  have persona1: "persona (setPersona only_mode example_state) =
      \<lparr> mode = Playful, colors = [''#000000''] \<rparr>"
  proof -
    have f1: "mode_opt only_mode = Some Playful \<longrightarrow>
        mode (persona (setPersona only_mode example_state)) = Playful"
      by (insert a, elim conjE, assumption)
    have f2: "colors_opt only_mode = None \<longrightarrow>
        colors (persona (setPersona only_mode example_state)) = colors (persona example_state)"
      by (insert a, elim conjE, assumption)
    from f1 f2 show ?thesis
      by (simp add: only_mode_def example_state_def)
  qed
  have persona2: "persona (setPersona only_colors example_state) =
      \<lparr> mode = Minimal, colors = [''#FFFFFF''] \<rparr>"
  proof -
    have f1: "mode_opt only_colors = None \<longrightarrow>
        mode (persona (setPersona only_colors example_state)) = mode (persona example_state)"
      by (insert b, elim conjE, assumption)
    have f2: "colors_opt only_colors = Some [''#FFFFFF''] \<longrightarrow>
        colors (persona (setPersona only_colors example_state)) = [''#FFFFFF'']"
      by (insert b, elim conjE, assumption)
    from f1 f2 show ?thesis
      by (simp add: only_colors_def example_state_def)
  qed
  have profile1: "profile (setProfile only_role example_state) =
      \<lparr> name = ''Ada'', role = ''Engineer'', avatarSeed = ''a1'', verified = True,
        links = [''https://example.org''] \<rparr>"
  proof -
    have f1: "name_opt only_role = None \<longrightarrow>
        name (profile (setProfile only_role example_state)) = name (profile example_state)"
      by (insert a, elim conjE, assumption)
    have f2: "role_opt only_role = Some ''Engineer'' \<longrightarrow>
        role (profile (setProfile only_role example_state)) = ''Engineer''"
      by (insert a, elim conjE, assumption)
    have f3: "avatarSeed_opt only_role = None \<longrightarrow>
        avatarSeed (profile (setProfile only_role example_state)) = avatarSeed (profile example_state)"
      by (insert a, elim conjE, assumption)
    have f4: "verified_opt only_role = None \<longrightarrow>
        verified (profile (setProfile only_role example_state)) = verified (profile example_state)"
      by (insert a, elim conjE, assumption)
    have f5: "links_opt only_role = None \<longrightarrow>
        links (profile (setProfile only_role example_state)) = links (profile example_state)"
      by (insert a, elim conjE, assumption)
    from f1 f2 f3 f4 f5 show ?thesis
      by (simp add: only_role_def example_state_def)
  qed
  have profile2: "profile (setProfile all_but_role example_state) =
      \<lparr> name = ''Grace'', role = ''Designer'', avatarSeed = ''g7'', verified = False,
        links = [] \<rparr>"
  proof -
    have f1: "name_opt all_but_role = Some ''Grace'' \<longrightarrow>
        name (profile (setProfile all_but_role example_state)) = ''Grace''"
      by (insert b, elim conjE, assumption)
    have f2: "role_opt all_but_role = None \<longrightarrow>
        role (profile (setProfile all_but_role example_state)) = role (profile example_state)"
      by (insert b, elim conjE, assumption)
    have f3: "avatarSeed_opt all_but_role = Some ''g7'' \<longrightarrow>
        avatarSeed (profile (setProfile all_but_role example_state)) = ''g7''"
      by (insert b, elim conjE, assumption)
    have f4: "verified_opt all_but_role = Some False \<longrightarrow>
        verified (profile (setProfile all_but_role example_state)) = False"
      by (insert b, elim conjE, assumption)
    have f5: "links_opt all_but_role = Some [] \<longrightarrow>
        links (profile (setProfile all_but_role example_state)) = []"
      by (insert b, elim conjE, assumption)
    from f1 f2 f3 f4 f5 show ?thesis
      by (simp add: all_but_role_def example_state_def)
  qed
  have prefs1: "preferences (setPreferences only_theme example_state) =
      \<lparr> reduceMotion = True, disableShaders = True, theme = Light, soundEnabled = True \<rparr>"
  proof -
    have f1: "reduceMotion_opt only_theme = None \<longrightarrow>
        reduceMotion (preferences (setPreferences only_theme example_state)) = reduceMotion (preferences example_state)"
      by (insert a, elim conjE, assumption)
    have f2: "disableShaders_opt only_theme = None \<longrightarrow>
        disableShaders (preferences (setPreferences only_theme example_state)) = disableShaders (preferences example_state)"
      by (insert a, elim conjE, assumption)
    have f3: "theme_opt only_theme = Some Light \<longrightarrow>
        theme (preferences (setPreferences only_theme example_state)) = Light"
      by (insert a, elim conjE, assumption)
    have f4: "soundEnabled_opt only_theme = None \<longrightarrow>
        soundEnabled (preferences (setPreferences only_theme example_state)) = soundEnabled (preferences example_state)"
      by (insert a, elim conjE, assumption)
    from f1 f2 f3 f4 show ?thesis
      by (simp add: only_theme_def example_state_def)
  qed
  have prefs2: "preferences (setPreferences all_but_theme example_state) =
      \<lparr> reduceMotion = False, disableShaders = False, theme = Brand, soundEnabled = False \<rparr>"
  proof -
    have f1: "reduceMotion_opt all_but_theme = Some False \<longrightarrow>
        reduceMotion (preferences (setPreferences all_but_theme example_state)) = False"
      by (insert b, elim conjE, assumption)
    have f2: "disableShaders_opt all_but_theme = Some False \<longrightarrow>
        disableShaders (preferences (setPreferences all_but_theme example_state)) = False"
      by (insert b, elim conjE, assumption)
    have f3: "theme_opt all_but_theme = None \<longrightarrow>
        theme (preferences (setPreferences all_but_theme example_state)) = theme (preferences example_state)"
      by (insert b, elim conjE, assumption)
    have f4: "soundEnabled_opt all_but_theme = Some False \<longrightarrow>
        soundEnabled (preferences (setPreferences all_but_theme example_state)) = False"
      by (insert b, elim conjE, assumption)
    from f1 f2 f3 f4 show ?thesis
      by (simp add: all_but_theme_def example_state_def)
  qed
  have foo: "formData (setFormData example_entries example_state) ''foo'' = Some (Str ''bar'')"
  proof -
    have f1: "distinct (map fst example_entries) \<longrightarrow>
        (''foo'', Str ''bar'') \<in> set example_entries \<longrightarrow>
        formData (setFormData example_entries example_state) ''foo'' = Some (Str ''bar'')"
      by (insert a, elim conjE, assumption)
    from f1 show ?thesis
      by (simp add: example_entries_def)
  qed
  have baz: "formData (setFormData example_entries example_state) ''baz''
      = Some (Str ''stays'')"
  proof -
    have f1: "(\<forall>w. (''baz'', Str w) \<notin> set example_entries) \<longrightarrow>
        formData (setFormData example_entries example_state) ''baz''
          = formData example_state ''baz''"
      by (insert b, elim conjE, assumption)
    from f1 show ?thesis
      by (simp add: example_entries_def example_state_def)
  qed
  have qux: "formData (setFormData example_entries example_state) ''qux''
      = Some (Str ''kept'')"
  proof -
    have f1: "''qux'' \<notin> fst ` set example_entries \<longrightarrow>
        formData (setFormData example_entries example_state) ''qux''
          = formData example_state ''qux''"
      by (insert c, elim conjE, assumption)
    from f1 show ?thesis
      by (simp add: example_entries_def example_state_def)
  qed
  have frame1: "setPersona only_mode example_state =
      example_state\<lparr> persona := \<lparr> mode = Playful, colors = [''#000000''] \<rparr> \<rparr>"
  proof -
    have "setPersona only_mode example_state
        = example_state\<lparr> persona := persona (setPersona only_mode example_state) \<rparr>"
      by (insert a, elim conjE, assumption)
    then show ?thesis
      by (simp only: persona1)
  qed
  have frame2: "completedDays (setProfile only_role example_state) = [3]"
  proof -
    have "setProfile only_role example_state
        = example_state\<lparr> profile := profile (setProfile only_role example_state) \<rparr>"
      by (insert a, elim conjE, assumption)
    then have "completedDays (setProfile only_role example_state)
        = completedDays (example_state\<lparr> profile := profile (setProfile only_role example_state) \<rparr>)"
      by (rule arg_cong)
    then show ?thesis
      by (simp add: example_state_def)
  qed
  have frame3: "aiStatus (setFormData example_entries example_state) = Ready"
  proof -
    have "setFormData example_entries example_state
        = example_state\<lparr> formData := formData (setFormData example_entries example_state) \<rparr>"
      by (insert a, elim conjE, assumption)
    then have "aiStatus (setFormData example_entries example_state)
        = aiStatus (example_state\<lparr> formData := formData (setFormData example_entries example_state) \<rparr>)"
      by (rule arg_cong)
    then show ?thesis
      by (simp add: example_state_def)
  qed
  have frame4: "folderItems (setPreferences only_theme example_state) = [item_B]"
  proof -
    have "setPreferences only_theme example_state
        = example_state\<lparr> preferences := preferences (setPreferences only_theme example_state) \<rparr>"
      by (insert a, elim conjE, assumption)
    then have "folderItems (setPreferences only_theme example_state)
        = folderItems (example_state\<lparr> preferences := preferences (setPreferences only_theme example_state) \<rparr>)"
      by (rule arg_cong)
    then show ?thesis
      by (simp add: example_state_def)
  qed
  from persona1 persona2 profile1 profile2 prefs1 prefs2 foo baz qux frame1 frame2 frame3 frame4
  show ?thesis by (intro conjI)
qed


section \<open>Persisted subset\<close>

text \<open>
  What \<open>partialize\<close> hands over is determined by the six persisted fields and by nothing
  else: \<open>aiStatus\<close> is not part of it.
\<close>

lemma partialize_eq_iff:
  "partialize s = partialize t \<longleftrightarrow>
     persona s = persona t \<and> profile s = profile t \<and> folderItems s = folderItems t
     \<and> formData s = formData t \<and> preferences s = preferences t
     \<and> completedDays s = completedDays t"
  by (auto simp add: partialize_def)

lemma partialize_setAiStatus: "partialize (setAiStatus status s) = partialize s"
  by (simp add: partialize_def setAiStatus_def set_defs)

end
